theory Spec2Isabelle
  imports Complex_Main
begin

section \<open>JavaScript values as the client handles them\<close>

text \<open>
  The client (\<^verbatim>\<open>frontend/src/App.js\<close>) moves scalar values between forms, component
  state, \<^verbatim>\<open>localStorage\<close> and JSON bodies. The scalars are modelled by \<open>jsval\<close>; a number
  is an integer or \<open>NaN\<close> (the only numbers the client computes come from \<^verbatim>\<open>parseInt\<close>).
  A string is a list of characters.
\<close>

datatype jsval = Undefined | Null | Boolean bool | Number int | NaN | String string

text \<open>A plain object with scalar fields, in the order the fields were written.\<close>

type_synonym js_object = "(string \<times> jsval) list"

text \<open>Property access \<^verbatim>\<open>obj.k\<close>: a missing property reads as \<^verbatim>\<open>undefined\<close>.\<close>

definition field :: "js_object \<Rightarrow> string \<Rightarrow> jsval" where
  "field obj k = (case map_of obj k of None \<Rightarrow> Undefined | Some v \<Rightarrow> v)"

text \<open>Truthiness, as \<^verbatim>\<open>if (x)\<close>, \<^verbatim>\<open>!x\<close> and \<^verbatim>\<open>x || y\<close> test it.\<close>

fun truthy :: "jsval \<Rightarrow> bool" where
  "truthy Undefined = False"
| "truthy Null = False"
| "truthy (Boolean b) = b"
| "truthy (Number n) = (n \<noteq> 0)"
| "truthy NaN = False"
| "truthy (String s) = (s \<noteq> [])"

definition js_or :: "jsval \<Rightarrow> jsval \<Rightarrow> jsval" where
  "js_or a b = (if truthy a then a else b)"

text \<open>Decimal digits of a natural number, most significant first.\<close>

fun digits_of :: "nat \<Rightarrow> string" where
  "digits_of n =
     (if n < 10 then [char_of (48 + n)]
      else digits_of (n div 10) @ [char_of (48 + n mod 10)])"

text \<open>\<^verbatim>\<open>String(x)\<close>, which is what a template literal \<^verbatim>\<open>`${x}`\<close> applies.\<close>

fun to_string :: "jsval \<Rightarrow> string" where
  "to_string Undefined = ''undefined''"
| "to_string Null = ''null''"
| "to_string (Boolean b) = (if b then ''true'' else ''false'')"
| "to_string (Number n) = (if n < 0 then ''-'' @ digits_of (nat (- n)) else digits_of (nat n))"
| "to_string NaN = ''NaN''"
| "to_string (String s) = s"

text \<open>
  \<^verbatim>\<open>JSON.stringify\<close> of a plain object: a property whose value is \<^verbatim>\<open>undefined\<close> is
  left out and \<open>NaN\<close> is written as \<^verbatim>\<open>null\<close>. The result stands for the JSON text: it is
  the object that text denotes.
\<close>

definition json_value :: "jsval \<Rightarrow> jsval" where
  "json_value v = (if v = NaN then Null else v)"

definition JSON_stringify :: "js_object \<Rightarrow> js_object" where
  "JSON_stringify obj = map (\<lambda>(k, v). (k, json_value v)) (filter (\<lambda>(k, v). v \<noteq> Undefined) obj)"

definition keys :: "js_object \<Rightarrow> string list" where
  "keys obj = map fst obj"


section \<open>The HTTP calls of the client\<close>

text \<open>
  What \<^verbatim>\<open>fetch(url, {method, headers, body})\<close> sends. Without a \<^verbatim>\<open>method\<close> option
  \<^verbatim>\<open>fetch\<close> sends a GET.
\<close>

record http_request =
  http_method :: string
  url :: string
  headers :: "(string \<times> string) list"
  body :: "js_object option"

text \<open>
  \<^verbatim>\<open>const API_BASE_URL = process.env.REACT_APP_BACKEND_URL || 'http://localhost:8001'\<close>;
  the environment variable is the parameter \<open>env\<close>.
\<close>

definition API_BASE_URL :: "jsval \<Rightarrow> string" where
  "API_BASE_URL env = to_string (js_or env (String ''http://localhost:8001''))"

text \<open>\<^verbatim>\<open>fetchCurrentUser\<close> (lines 21-27): the request.\<close>

definition fetchCurrentUser_request :: "jsval \<Rightarrow> jsval \<Rightarrow> http_request" where
  "fetchCurrentUser_request env token =
     \<lparr>http_method = ''GET'',
      url = API_BASE_URL env @ ''/api/auth/me'',
      headers = [(''Authorization'', ''Bearer '' @ to_string token)],
      body = None\<rparr>"

text \<open>\<^verbatim>\<open>handleLogin\<close> (lines 46-52).\<close>

definition handleLogin_request :: "jsval \<Rightarrow> js_object \<Rightarrow> http_request" where
  "handleLogin_request env credentials =
     \<lparr>http_method = ''POST'',
      url = API_BASE_URL env @ ''/api/auth/login'',
      headers = [(''Content-Type'', ''application/json'')],
      body = Some (JSON_stringify credentials)\<rparr>"

text \<open>\<^verbatim>\<open>handleRegister\<close> (lines 72-78).\<close>

definition handleRegister_request :: "jsval \<Rightarrow> js_object \<Rightarrow> http_request" where
  "handleRegister_request env userData =
     \<lparr>http_method = ''POST'',
      url = API_BASE_URL env @ ''/api/auth/register'',
      headers = [(''Content-Type'', ''application/json'')],
      body = Some (JSON_stringify userData)\<rparr>"

text \<open>
  \<^verbatim>\<open>fetchListings\<close> and \<^verbatim>\<open>fetchStats\<close>: \<^verbatim>\<open>DonorDashboard\<close> (lines 336-362) and
  \<^verbatim>\<open>NGODashboard\<close> (lines 645-671) each declare both, with the same text.
\<close>

definition fetchListings_request :: "jsval \<Rightarrow> jsval \<Rightarrow> http_request" where
  "fetchListings_request env token =
     \<lparr>http_method = ''GET'',
      url = API_BASE_URL env @ ''/api/listings'',
      headers = [(''Authorization'', ''Bearer '' @ to_string token)],
      body = None\<rparr>"

definition fetchStats_request :: "jsval \<Rightarrow> jsval \<Rightarrow> http_request" where
  "fetchStats_request env token =
     \<lparr>http_method = ''GET'',
      url = API_BASE_URL env @ ''/api/dashboard/stats'',
      headers = [(''Authorization'', ''Bearer '' @ to_string token)],
      body = None\<rparr>"

text \<open>\<^verbatim>\<open>createListing\<close> (lines 367-374).\<close>

definition createListing_request :: "jsval \<Rightarrow> jsval \<Rightarrow> js_object \<Rightarrow> http_request" where
  "createListing_request env token listingData =
     \<lparr>http_method = ''POST'',
      url = API_BASE_URL env @ ''/api/listings'',
      headers = [(''Content-Type'', ''application/json''),
                 (''Authorization'', ''Bearer '' @ to_string token)],
      body = Some (JSON_stringify listingData)\<rparr>"

text \<open>\<^verbatim>\<open>markComplete\<close> (lines 393-396): no body.\<close>

definition markComplete_request :: "jsval \<Rightarrow> jsval \<Rightarrow> jsval \<Rightarrow> http_request" where
  "markComplete_request env token listingId =
     \<lparr>http_method = ''POST'',
      url = API_BASE_URL env @ ''/api/listings/'' @ to_string listingId @ ''/complete'',
      headers = [(''Authorization'', ''Bearer '' @ to_string token)],
      body = None\<rparr>"

text \<open>
  \<^verbatim>\<open>requestPickup = async (listingId, message = '')\<close> (lines 673-683): the default
  value replaces an argument that is \<^verbatim>\<open>undefined\<close>, and only that.
\<close>

definition requestPickup_request :: "jsval \<Rightarrow> jsval \<Rightarrow> jsval \<Rightarrow> jsval \<Rightarrow> http_request" where
  "requestPickup_request env token listingId message0 =
     (let message = (if message0 = Undefined then String [] else message0) in
      \<lparr>http_method = ''POST'',
       url = API_BASE_URL env @ ''/api/listings/'' @ to_string listingId @ ''/request'',
       headers = [(''Content-Type'', ''application/json''),
                  (''Authorization'', ''Bearer '' @ to_string token)],
       body = Some (JSON_stringify [(''listing_id'', listingId), (''message'', message)])\<rparr>)"

text \<open>The value of a request header, if the request has it.\<close>

definition header :: "http_request \<Rightarrow> string \<Rightarrow> string option" where
  "header r h = map_of (headers r) h"


section \<open>Forms and click handlers\<close>

text \<open>
  \<^verbatim>\<open>new FormData(e.target)\<close>: the entries of the submitted form, one per named control;
  \<^verbatim>\<open>formData.get(k)\<close> is the value of the first entry named \<open>k\<close>, or \<^verbatim>\<open>null\<close>.
\<close>

type_synonym form_data = "(string \<times> string) list"

definition formData_get :: "form_data \<Rightarrow> string \<Rightarrow> jsval" where
  "formData_get formData k = (case map_of formData k of None \<Rightarrow> Null | Some s \<Rightarrow> String s)"

text \<open>
  \<^verbatim>\<open>parseInt(x)\<close> with no radix: the argument is converted to a string, leading white
  space is skipped, a sign is read, a prefix \<^verbatim>\<open>0x\<close> or \<^verbatim>\<open>0X\<close> selects radix 16 (radix
  10 otherwise), and the longest run of digits of that radix is the value; no digit at all
  gives \<open>NaN\<close>. (Characters are 8-bit here, so the white space beyond U+00A0 is not
  represented; neither is the rounding of integers above \<open>2^53\<close>.)
\<close>

definition is_whitespace :: "char \<Rightarrow> bool" where
  "is_whitespace c = ((of_char c :: nat) \<in> {9, 10, 11, 12, 13, 32, 160})"

definition digit_of_char :: "char \<Rightarrow> nat option" where
  "digit_of_char c =
     (let n = (of_char c :: nat) in
      if 48 \<le> n \<and> n \<le> 57 then Some (n - 48)
      else if 97 \<le> n \<and> n \<le> 122 then Some (n - 87)
      else if 65 \<le> n \<and> n \<le> 90 then Some (n - 55)
      else None)"

definition radix_digit :: "nat \<Rightarrow> char \<Rightarrow> nat option" where
  "radix_digit R c =
     (case digit_of_char c of None \<Rightarrow> None | Some d \<Rightarrow> if d < R then Some d else None)"

definition parseInt :: "jsval \<Rightarrow> jsval" where
  "parseInt x =
     (let s0 = dropWhile is_whitespace (to_string x);
          negative = (take 1 s0 = ''-'');
          s1 = (if take 1 s0 = ''+'' \<or> take 1 s0 = ''-'' then drop 1 s0 else s0);
          hex = (take 2 s1 = ''0x'' \<or> take 2 s1 = ''0X'');
          R = (if hex then 16 else 10);
          s2 = (if hex then drop 2 s1 else s1);
          z = takeWhile (\<lambda>c. radix_digit R c \<noteq> None) s2;
          n = foldl (\<lambda>a c. case radix_digit R c of None \<Rightarrow> a | Some d \<Rightarrow> a * R + d) 0 z
      in if z = [] then NaN else Number (if negative then - int n else int n))"

text \<open>The login form's \<^verbatim>\<open>onSubmit\<close> (lines 110-117).\<close>

definition login_onSubmit :: "jsval \<Rightarrow> form_data \<Rightarrow> http_request" where
  "login_onSubmit env formData =
     handleLogin_request env
       [(''email'', formData_get formData ''email''),
        (''password'', formData_get formData ''password'')]"

text \<open>The registration form's \<^verbatim>\<open>onSubmit\<close> (lines 172-184).\<close>

definition register_onSubmit :: "jsval \<Rightarrow> form_data \<Rightarrow> http_request" where
  "register_onSubmit env formData =
     handleRegister_request env
       [(''name'', formData_get formData ''name''),
        (''email'', formData_get formData ''email''),
        (''password'', formData_get formData ''password''),
        (''role'', formData_get formData ''role''),
        (''phone'', formData_get formData ''phone''),
        (''address'', formData_get formData ''address''),
        (''organization'', formData_get formData ''organization'')]"

text \<open>The create-listing form's \<^verbatim>\<open>onSubmit\<close> (lines 422-434).\<close>

definition createListing_onSubmit :: "jsval \<Rightarrow> jsval \<Rightarrow> form_data \<Rightarrow> http_request" where
  "createListing_onSubmit env token formData =
     createListing_request env token
       [(''title'', formData_get formData ''title''),
        (''description'', formData_get formData ''description''),
        (''quantity'', formData_get formData ''quantity''),
        (''food_type'', formData_get formData ''food_type''),
        (''pickup_address'', formData_get formData ''pickup_address''),
        (''expiry_hours'', parseInt (formData_get formData ''expiry_hours'')),
        (''image_url'', js_or (formData_get formData ''image_url'') Null)]"

text \<open>
  The controls a form declares in its markup: the name, whether it carries \<^verbatim>\<open>required\<close>,
  and for a \<^verbatim>\<open>select\<close> the values of its options (\<open>None\<close> for a free-text input).
\<close>

record form_control =
  name :: string
  required :: bool
  options :: "string list option"

text \<open>The create-listing form (lines 435-513), in document order.\<close>

definition createListing_form :: "form_control list" where
  "createListing_form =
     [\<lparr>name = ''title'', required = True, options = None\<rparr>,
      \<lparr>name = ''quantity'', required = True, options = None\<rparr>,
      \<lparr>name = ''food_type'', required = True,
       options = Some ['''', ''veg'', ''non-veg'', ''both'']\<rparr>,
      \<lparr>name = ''expiry_hours'', required = True,
       options = Some ['''', ''2'', ''4'', ''6'', ''12'', ''24'']\<rparr>,
      \<lparr>name = ''description'', required = True, options = None\<rparr>,
      \<lparr>name = ''pickup_address'', required = True, options = None\<rparr>,
      \<lparr>name = ''image_url'', required = False, options = None\<rparr>]"

text \<open>
  What the browser does with that markup: the form data has one entry per control, a
  \<^verbatim>\<open>select\<close> contributes the value of one of its options, and \<^verbatim>\<open>onSubmit\<close> runs only
  when every \<^verbatim>\<open>required\<close> control has a non-empty value.
\<close>

definition control_entry :: "form_control \<Rightarrow> string \<times> string \<Rightarrow> bool" where
  "control_entry c e =
     (fst e = name c
      \<and> (case options c of None \<Rightarrow> True | Some vs \<Rightarrow> snd e \<in> set vs)
      \<and> (if required c then snd e \<noteq> [] else True))"

definition submitted :: "form_control list \<Rightarrow> form_data \<Rightarrow> bool" where
  "submitted form formData = list_all2 control_entry form formData"

text \<open>
  The \<^verbatim>\<open>Request Pickup\<close> button's \<^verbatim>\<open>onClick\<close> (lines 791-796); \<open>prompt_result\<close> is what
  \<^verbatim>\<open>prompt(...)\<close> returned, \<^verbatim>\<open>null\<close> when the user cancelled. The result is the request
  issued, if any.
\<close>

definition requestPickup_onClick ::
    "jsval \<Rightarrow> jsval \<Rightarrow> js_object \<Rightarrow> jsval \<Rightarrow> http_request option" where
  "requestPickup_onClick env token listing prompt_result =
     (let message = prompt_result in
      if message \<noteq> Null
      then Some (requestPickup_request env token (field listing ''listing_id'') message)
      else None)"

text \<open>
  The donor's listing card (lines 612-619): whether the \<^verbatim>\<open>Mark Complete\<close> button is
  rendered, and the request its \<^verbatim>\<open>onClick\<close> issues.
\<close>

definition markComplete_offered :: "js_object \<Rightarrow> bool" where
  "markComplete_offered listing = (field listing ''status'' = String ''requested'')"


text \<open>
  The statistics cards of the two dashboards (lines 541-570 and 706-735): the label and
  the value shown, \<^verbatim>\<open>stats.k || 0\<close>.
\<close>

definition DonorDashboard_cards :: "js_object \<Rightarrow> (string \<times> jsval) list" where
  "DonorDashboard_cards stats =
     [(''Total Listings'', js_or (field stats ''total_listings'') (Number 0)),
      (''Active Listings'', js_or (field stats ''active_listings'') (Number 0)),
      (''Completed Pickups'', js_or (field stats ''completed_pickups'') (Number 0))]"

definition NGODashboard_cards :: "js_object \<Rightarrow> (string \<times> jsval) list" where
  "NGODashboard_cards stats =
     [(''Total Requests'', js_or (field stats ''total_requests'') (Number 0)),
      (''Accepted Requests'', js_or (field stats ''accepted_requests'') (Number 0)),
      (''Completed Pickups'', js_or (field stats ''completed_pickups'') (Number 0))]"


section \<open>The state of the \<^verbatim>\<open>App\<close> component\<close>

text \<open>
  The four \<^verbatim>\<open>useState\<close> cells of \<^verbatim>\<open>App\<close> (lines 8-11), the \<^verbatim>\<open>token\<close> entry of
  \<^verbatim>\<open>localStorage\<close>, and the messages passed to \<^verbatim>\<open>alert\<close>. \<open>user\<close> is \<open>None\<close> when the
  cell holds \<^verbatim>\<open>null\<close> or any other falsy value, and \<open>Some u\<close> when it holds the object
  \<open>u\<close>.
\<close>

record app_state =
  user :: "js_object option"
  currentView :: string
  loading :: bool
  token :: jsval
  localStorage_token :: "string option"
  alerts :: "jsval list"

text \<open>The first render: \<^verbatim>\<open>useState(localStorage.getItem('token'))\<close>.\<close>

definition App_initial :: "string option \<Rightarrow> app_state" where
  "App_initial stored =
     \<lparr>user = None, currentView = ''login'', loading = False,
      token = (case stored of None \<Rightarrow> Null | Some t \<Rightarrow> String t),
      localStorage_token = stored, alerts = []\<rparr>"


text \<open>
  How a \<^verbatim>\<open>fetch\<close> ends: it rejects (\<open>NetworkError\<close>), or it resolves to a response with
  its \<^verbatim>\<open>ok\<close> flag and its parsed JSON body. The body is \<open>None\<close> when \<^verbatim>\<open>response.json()\<close>
  rejects, or yields \<^verbatim>\<open>null\<close> where the handler then reads a property of it: both throw
  inside the handler's \<^verbatim>\<open>try\<close>.
\<close>

datatype 'a fetch_outcome = NetworkError | Response bool "'a option"

text \<open>The fields the handlers read from a login or registration response.\<close>

record auth_data =
  data_token :: jsval
  data_user :: "js_object option"
  data_detail :: jsval

text \<open>
  \<^verbatim>\<open>fetchCurrentUser\<close> after its \<^verbatim>\<open>fetch\<close> has ended (lines 28-40). The body of an
  \<^verbatim>\<open>ok\<close> response is the user object, \<open>Some None\<close> when it is a falsy JSON value.
\<close>

fun fetchCurrentUser :: "js_object option fetch_outcome \<Rightarrow> app_state \<Rightarrow> app_state" where
  "fetchCurrentUser (Response True (Some userData)) s =
     s\<lparr>user := userData, currentView := ''dashboard''\<rparr>"
| "fetchCurrentUser (Response True None) s =
     s\<lparr>localStorage_token := None, token := Null\<rparr>"
| "fetchCurrentUser (Response False b) s =
     s\<lparr>localStorage_token := None, token := Null\<rparr>"
| "fetchCurrentUser NetworkError s =
     s\<lparr>localStorage_token := None, token := Null\<rparr>"

text \<open>
  \<^verbatim>\<open>handleLogin\<close> from its \<^verbatim>\<open>fetch\<close> ending to its return (lines 54-66);
  \<^verbatim>\<open>localStorage.setItem\<close> stores the string conversion of its argument.
\<close>

fun handleLogin :: "auth_data fetch_outcome \<Rightarrow> app_state \<Rightarrow> app_state" where
  "handleLogin (Response True (Some data)) s =
     s\<lparr>localStorage_token := Some (to_string (data_token data)),
       token := data_token data,
       user := data_user data,
       currentView := ''dashboard'',
       loading := False\<rparr>"
| "handleLogin (Response False (Some data)) s =
     s\<lparr>alerts := alerts s @ [js_or (data_detail data) (String ''Login failed'')],
       loading := False\<rparr>"
| "handleLogin (Response ok None) s =
     s\<lparr>alerts := alerts s @ [String ''Login failed. Please try again.''], loading := False\<rparr>"
| "handleLogin NetworkError s =
     s\<lparr>alerts := alerts s @ [String ''Login failed. Please try again.''], loading := False\<rparr>"

text \<open>\<^verbatim>\<open>handleRegister\<close>, likewise (lines 80-92).\<close>

fun handleRegister :: "auth_data fetch_outcome \<Rightarrow> app_state \<Rightarrow> app_state" where
  "handleRegister (Response True (Some data)) s =
     s\<lparr>localStorage_token := Some (to_string (data_token data)),
       token := data_token data,
       user := data_user data,
       currentView := ''dashboard'',
       loading := False\<rparr>"
| "handleRegister (Response False (Some data)) s =
     s\<lparr>alerts := alerts s @ [js_or (data_detail data) (String ''Registration failed'')],
       loading := False\<rparr>"
| "handleRegister (Response ok None) s =
     s\<lparr>alerts := alerts s @ [String ''Registration failed. Please try again.''],
       loading := False\<rparr>"
| "handleRegister NetworkError s =
     s\<lparr>alerts := alerts s @ [String ''Registration failed. Please try again.''],
       loading := False\<rparr>"

text \<open>\<^verbatim>\<open>handleLogout\<close> (lines 95-100).\<close>

definition handleLogout :: "app_state \<Rightarrow> app_state" where
  "handleLogout s =
     s\<lparr>localStorage_token := None, token := Null, user := None, currentView := ''login''\<rparr>"

text \<open>
  What \<^verbatim>\<open>App\<close> renders (lines 280-319): a form while \<^verbatim>\<open>!user\<close>, else the navigation bar
  with the role badge and the welcome name, and one of the two dashboards with the token.
\<close>

datatype dashboard = DonorDashboard jsval | NGODashboard jsval

datatype screen = LoginForm | RegisterForm | MainDashboard string jsval dashboard

definition App_render :: "app_state \<Rightarrow> screen" where
  "App_render s =
     (case user s of
        None \<Rightarrow> if currentView s = ''login'' then LoginForm else RegisterForm
      | Some u \<Rightarrow>
          MainDashboard
            (if field u ''role'' = String ''donor'' then ''Donor'' else ''NGO'')
            (field u ''name'')
            (if field u ''role'' = String ''donor''
             then DonorDashboard (token s) else NGODashboard (token s)))"

text \<open>
  Everything that changes the state of \<^verbatim>\<open>App\<close>: a handler running to its end after
  its \<^verbatim>\<open>fetch\<close>, the logout button, and the two buttons that switch between the forms.
\<close>

datatype event =
    FetchCurrentUserDone "js_object option fetch_outcome"
  | LoginDone "auth_data fetch_outcome"
  | RegisterDone "auth_data fetch_outcome"
  | Logout
  | SetCurrentView string

fun step :: "app_state \<Rightarrow> event \<Rightarrow> app_state" where
  "step s (FetchCurrentUserDone r) = fetchCurrentUser r s"
| "step s (LoginDone r) = handleLogin r s"
| "step s (RegisterDone r) = handleRegister r s"
| "step s Logout = handleLogout s"
| "step s (SetCurrentView v) = s\<lparr>currentView := v\<rparr>"

definition run :: "app_state \<Rightarrow> event list \<Rightarrow> app_state" where
  "run s es = foldl step s es"

text \<open>The responses that carry a user record: the event and the record it hands over.\<close>

fun delivers_user :: "event \<Rightarrow> js_object \<Rightarrow> bool" where
  "delivers_user (FetchCurrentUserDone (Response True (Some userData))) u = (userData = Some u)"
| "delivers_user (LoginDone (Response True (Some data))) u = (data_user data = Some u)"
| "delivers_user (RegisterDone (Response True (Some data))) u = (data_user data = Some u)"
| "delivers_user e u = False"







section \<open>The service behind the interface\<close>

text \<open>
  The client is the only source file; the service it calls is described by the
  specification alone. The definitions of this section follow the specification's words,
  section by section, and each says which part of the service it stands for.
\<close>

subsection \<open>Data model\<close>

text \<open>Modelled from the spec: the status of a listing (section 3); the service's own
  types are not among the sources.\<close>

datatype listing_status = Available | Requested | Completed | Expired

text \<open>Modelled from the spec: the status of a request (section 3).\<close>

datatype request_status = Pending | Accepted | Rejected

text \<open>Modelled from the spec: the role of a user (section 3), fixed at registration.\<close>

datatype role = Donor | Ngo

text \<open>Modelled from the spec: the failure kinds of section 7 that the operations below
  report; the service's error type is not among the sources.\<close>

datatype error = ValidationError | Forbidden | NotFound | InvalidState | InternalError

text \<open>Modelled from the spec: the Listing record of section 3 (the service's storage
  schema is not among the sources). Timestamps are seconds on the wall clock. There is no
  field for the hours remaining: it is derived.\<close>

record listing =
  listing_id :: string
  owner_id :: string
  title :: string
  description :: string
  quantity :: string
  food_type :: string
  pickup_address :: string
  image :: "string option"
  created_at :: real
  expiry_hours :: int
  status :: listing_status

text \<open>Modelled from the spec: the Request record of section 3.\<close>

record pickup_request =
  request_id :: string
  request_listing_id :: string
  requester_id :: string
  request_message :: "string option"
  request_created_at :: real
  request_status :: request_status

text \<open>Modelled from the spec: the shared store of listings and requests (sections 3
  and 5), in creation order.\<close>

record store =
  listings :: "listing list"
  requests :: "pickup_request list"

text \<open>Modelled from the spec: what verifying a token yields (section 4.1), the caller's
  identity and role.\<close>

record identity =
  user_id :: string
  user_role :: role

subsection \<open>Expiry\<close>

text \<open>Modelled from the spec: \<^verbatim>\<open>elapsed_hours(created_at, now)\<close> of section 3, the hours
  between two timestamps; the service's clock arithmetic is not among the sources.\<close>

definition elapsed_hours :: "real \<Rightarrow> real \<Rightarrow> real" where
  "elapsed_hours created now = (now - created) / 3600"

text \<open>Modelled from the spec: the derived field of section 3,
  \<^verbatim>\<open>hours_remaining = max(0, expiry_hours - elapsed_hours(created_at, now))\<close>, a function
  of the listing and the time of the read.\<close>

definition hours_remaining :: "listing \<Rightarrow> real \<Rightarrow> real" where
  "hours_remaining l now =
     max 0 (real_of_int (expiry_hours l) - elapsed_hours (created_at l) now)"

text \<open>Modelled from the spec: the instant \<^verbatim>\<open>created_at + expiry_hours\<close> of section 8, on
  the clock of \<open>created_at\<close>.\<close>

definition expiry_instant :: "listing \<Rightarrow> real" where
  "expiry_instant l = created_at l + 3600 * real_of_int (expiry_hours l)"

text \<open>Modelled from the spec: the effective status (section 3 and the glossary): a
  listing with no hours remaining is expired whatever was stored, except that a completed
  listing stays completed.\<close>

definition effective_status :: "listing \<Rightarrow> real \<Rightarrow> listing_status" where
  "effective_status l now =
     (if status l = Completed then Completed
      else if hours_remaining l now = 0 then Expired
      else status l)"

subsection \<open>Completion\<close>

text \<open>Modelled from the spec: the repository's lookup by id (section 4.4).\<close>

definition find_listing :: "store \<Rightarrow> string \<Rightarrow> listing option" where
  "find_listing st lid = find (\<lambda>l. listing_id l = lid) (listings st)"

text \<open>Modelled from the spec: \<^verbatim>\<open>completeListing(listing_id, donor)\<close> of section 4.3, with
  the failures of the interface table (section 6). An unknown id is \<open>NotFound\<close>; a listing
  whose effective status is not \<open>requested\<close> is \<open>InvalidState\<close>; a caller who is not the
  owner is \<open>Forbidden\<close>; otherwise the stored status becomes \<open>completed\<close>. The
  specification names \<open>InvalidState\<close> before \<open>Forbidden\<close> and the checks are made in that
  order.\<close>

definition completeListing :: "store \<Rightarrow> string \<Rightarrow> string \<Rightarrow> real \<Rightarrow> error + store" where
  "completeListing st lid donor now =
     (case find_listing st lid of
        None \<Rightarrow> Inl NotFound
      | Some l \<Rightarrow>
          if effective_status l now \<noteq> Requested then Inl InvalidState
          else if owner_id l \<noteq> donor then Inl Forbidden
          else Inr (st\<lparr>listings :=
                  map (\<lambda>x. if listing_id x = lid then x\<lparr>status := Completed\<rparr> else x)
                    (listings st)\<rparr>))"

subsection \<open>Creation\<close>

text \<open>Modelled from the spec: the enumerated set of \<^verbatim>\<open>expiry_hours\<close> (section 3).\<close>

definition expiry_hours_allowed :: "int list" where
  "expiry_hours_allowed = [2, 4, 6, 12, 24]"

text \<open>Modelled from the spec: the enumerated set of \<^verbatim>\<open>food_type\<close> (section 3).\<close>

definition food_types :: "string list" where
  "food_types = [''veg'', ''non-veg'', ''both'']"

text \<open>Modelled from the spec: the fields of a listing that section 3 does not mark
  optional and that are free text.\<close>

definition required_fields :: "string list" where
  "required_fields = [''title'', ''description'', ''quantity'', ''pickup_address'']"

text \<open>Modelled from the spec: a field that is present and non-empty (section 4.4), read
  as a string with at least one character.\<close>

definition non_empty_string :: "jsval \<Rightarrow> bool" where
  "non_empty_string v = (case v of String s \<Rightarrow> s \<noteq> [] | _ \<Rightarrow> False)"

text \<open>Modelled from the spec: the validation of a creation body (section 4.4):
  \<^verbatim>\<open>expiry_hours\<close> in the enumerated set, \<^verbatim>\<open>food_type\<close> in its enumerated set, required
  fields non-empty. The body is the JSON object the service receives.\<close>

definition validate_listing :: "js_object \<Rightarrow> bool" where
  "validate_listing input =
     (field input ''expiry_hours'' \<in> set (map Number expiry_hours_allowed)
      \<and> field input ''food_type'' \<in> set (map String food_types)
      \<and> list_all (\<lambda>k. non_empty_string (field input k)) required_fields)"

text \<open>Modelled from the spec: creation (sections 4.2, 4.4 and the interface table): the
  caller must be a donor (\<open>Forbidden\<close>), the body must validate (\<open>ValidationError\<close>), and
  the new listing is stored as \<open>available\<close>, owned by the caller and created now. The fresh
  id is a parameter.\<close>

definition create_listing ::
    "store \<Rightarrow> identity \<Rightarrow> string \<Rightarrow> real \<Rightarrow> js_object \<Rightarrow> error + store" where
  "create_listing st caller new_id now input =
     (if user_role caller \<noteq> Donor then Inl Forbidden
      else if \<not> validate_listing input then Inl ValidationError
      else Inr (st\<lparr>listings := listings st @
             [\<lparr>listing_id = new_id,
               owner_id = user_id caller,
               title = to_string (field input ''title''),
               description = to_string (field input ''description''),
               quantity = to_string (field input ''quantity''),
               food_type = to_string (field input ''food_type''),
               pickup_address = to_string (field input ''pickup_address''),
               image = (case field input ''image'' of String s \<Rightarrow> Some s | _ \<Rightarrow> None),
               created_at = now,
               expiry_hours = (case field input ''expiry_hours'' of Number n \<Rightarrow> n | _ \<Rightarrow> 0),
               status = Available\<rparr>]\<rparr>))"

subsection \<open>Statistics\<close>

text \<open>Modelled from the spec: a counter of section 4.5, the number of records that
  satisfy a condition, as a JSON number.\<close>

definition count :: "('a \<Rightarrow> bool) \<Rightarrow> 'a list \<Rightarrow> jsval" where
  "count P xs = Number (int (length (filter P xs)))"

text \<open>Modelled from the spec: the donor view of the Stats Aggregator (section 4.5), as
  the JSON object of the response.\<close>

definition donor_stats :: "store \<Rightarrow> string \<Rightarrow> real \<Rightarrow> js_object" where
  "donor_stats st caller now =
     [(''total_listings'', count (\<lambda>l. owner_id l = caller) (listings st)),
      (''active_listings'',
         count (\<lambda>l. owner_id l = caller
                  \<and> (effective_status l now = Available \<or> effective_status l now = Requested))
           (listings st)),
      (''completed_pickups'',
         count (\<lambda>l. owner_id l = caller \<and> status l = Completed) (listings st))]"

text \<open>Modelled from the spec: whether the listing of a request has reached
  \<open>completed\<close> (section 4.5).\<close>

definition listing_completed :: "store \<Rightarrow> pickup_request \<Rightarrow> bool" where
  "listing_completed st r =
     (case find_listing st (request_listing_id r) of
        None \<Rightarrow> False
      | Some l \<Rightarrow> status l = Completed)"

text \<open>Modelled from the spec: the organization view (section 4.5). A request of the
  caller whose listing does not exist is the internal failure of section 7.\<close>

definition organization_stats :: "store \<Rightarrow> string \<Rightarrow> error + js_object" where
  "organization_stats st caller =
     (if list_ex (\<lambda>r. requester_id r = caller \<and> find_listing st (request_listing_id r) = None)
           (requests st)
      then Inl InternalError
      else Inr
        [(''total_requests'', count (\<lambda>r. requester_id r = caller) (requests st)),
         (''accepted_requests'',
            count (\<lambda>r. requester_id r = caller \<and> request_status r = Accepted
                     \<and> \<not> listing_completed st r) (requests st)),
         (''completed_pickups'',
            count (\<lambda>r. requester_id r = caller \<and> listing_completed st r) (requests st))])"

text \<open>Modelled from the spec: \<^verbatim>\<open>GET /dashboard/stats\<close>, the role-appropriate counters
  of the caller (sections 4.2 and 6).\<close>

definition dashboard_stats :: "store \<Rightarrow> identity \<Rightarrow> real \<Rightarrow> error + js_object" where
  "dashboard_stats st caller now =
     (case user_role caller of
        Donor \<Rightarrow> Inr (donor_stats st (user_id caller) now)
      | Ngo \<Rightarrow> organization_stats st (user_id caller))"


section \<open>The interface table\<close>

text \<open>
  The eight operations of the interface table of section 6, and for each the row as the
  specification has it: method, path, the body fields listed, and those of them listed as
  optional.
\<close>

datatype operation =
    Register | Login | Me | GetListings | CreateListing
  | RequestPickup string | CompleteListing string | DashboardStats

record table_row =
  row_method :: string
  row_path :: string
  row_fields :: "string list"
  row_optional :: "string list"

fun interface_table :: "operation \<Rightarrow> table_row" where
  "interface_table Register =
     \<lparr>row_method = ''POST'', row_path = ''/auth/register'',
      row_fields = [''name'', ''email'', ''password'', ''role'', ''phone'', ''address'',
                    ''organization''],
      row_optional = [''phone'', ''address'', ''organization'']\<rparr>"
| "interface_table Login =
     \<lparr>row_method = ''POST'', row_path = ''/auth/login'',
      row_fields = [''email'', ''password''], row_optional = []\<rparr>"
| "interface_table Me =
     \<lparr>row_method = ''GET'', row_path = ''/auth/me'', row_fields = [], row_optional = []\<rparr>"
| "interface_table GetListings =
     \<lparr>row_method = ''GET'', row_path = ''/listings'', row_fields = [], row_optional = []\<rparr>"
| "interface_table CreateListing =
     \<lparr>row_method = ''POST'', row_path = ''/listings'',
      row_fields = [''title'', ''description'', ''quantity'', ''food_type'',
                    ''pickup_address'', ''expiry_hours'', ''image''],
      row_optional = [''image'']\<rparr>"
| "interface_table (RequestPickup i) =
     \<lparr>row_method = ''POST'', row_path = ''/listings/'' @ i @ ''/request'',
      row_fields = [''message''], row_optional = [''message'']\<rparr>"
| "interface_table (CompleteListing i) =
     \<lparr>row_method = ''POST'', row_path = ''/listings/'' @ i @ ''/complete'',
      row_fields = [], row_optional = []\<rparr>"
| "interface_table DashboardStats =
     \<lparr>row_method = ''GET'', row_path = ''/dashboard/stats'',
      row_fields = [], row_optional = []\<rparr>"

text \<open>The names of the fields a request carries in its body; none when it has no body.\<close>

definition body_fields :: "http_request \<Rightarrow> string list" where
  "body_fields r = (case body r of None \<Rightarrow> [] | Some b \<Rightarrow> keys b)"

text \<open>
  A request is addressed as a row says: the row's method, the row's path at the base
  address, and a body that carries only fields the row lists and every field the row does
  not mark optional.
\<close>

definition addressed_as :: "string \<Rightarrow> table_row \<Rightarrow> http_request \<Rightarrow> bool" where
  "addressed_as base row r =
     (http_method r = row_method row
      \<and> url r = base @ row_path row
      \<and> list_all (\<lambda>k. k \<in> set (row_fields row)) (body_fields r)
      \<and> list_all (\<lambda>k. k \<in> set (row_optional row) \<or> k \<in> set (body_fields r)) (row_fields row))"




section \<open>Example data\<close>

text \<open>A listing created at time 0 with four hours to go, a store that holds it as
  requested beside a completed one, and a filled-in create-listing form.\<close>

definition example_listing :: listing where
  "example_listing =
     \<lparr>listing_id = ''L1'', owner_id = ''d1'', title = ''Rice'', description = ''Fresh'',
      quantity = ''5kg'', food_type = ''veg'', pickup_address = ''1 Main St'', image = None,
      created_at = 0, expiry_hours = 4, status = Available\<rparr>"

definition example_store :: store where
  "example_store =
     \<lparr>listings =
        [example_listing\<lparr>status := Requested\<rparr>,
         example_listing\<lparr>listing_id := ''L2'', expiry_hours := 2, status := Completed\<rparr>],
      requests =
        [\<lparr>request_id = ''r1'', request_listing_id = ''L1'', requester_id = ''n1'',
          request_message = None, request_created_at = 60, request_status = Accepted\<rparr>,
         \<lparr>request_id = ''r2'', request_listing_id = ''L2'', requester_id = ''n1'',
          request_message = Some ''thanks'', request_created_at = 90,
          request_status = Accepted\<rparr>,
         \<lparr>request_id = ''r3'', request_listing_id = ''L1'', requester_id = ''n2'',
          request_message = None, request_created_at = 120, request_status = Rejected\<rparr>]\<rparr>"

definition example_form_data :: "string \<Rightarrow> string \<Rightarrow> form_data" where
  "example_form_data f e =
     [(''title'', ''Rice''), (''quantity'', ''5kg''), (''food_type'', f), (''expiry_hours'', e),
      (''description'', ''Fresh''), (''pickup_address'', ''1 Main St''), (''image_url'', '''')]"

definition example_auth_data :: auth_data where
  "example_auth_data =
     \<lparr>data_token = String ''t'',
      data_user = Some [(''name'', String ''Dan''), (''role'', String ''donor'')],
      data_detail = Undefined\<rparr>"


section \<open>Properties of the client's requests\<close>

lemma keys_JSON_stringify:
  "keys (JSON_stringify obj) = map fst (filter (\<lambda>(k, v). v \<noteq> Undefined) obj)"
  by (simp add: keys_def JSON_stringify_def comp_def case_prod_unfold)

lemma formData_get_defined [simp]: "formData_get fd k \<noteq> Undefined"
  by (simp add: formData_get_def split: option.splits)

lemma parseInt_defined [simp]: "parseInt x \<noteq> Undefined"
  by (simp add: parseInt_def Let_def)

lemma js_or_Null_defined [simp]: "js_or (formData_get fd k) Null \<noteq> Undefined"
  by (simp add: js_or_def)

lemma body_fields_register:
  "body_fields (register_onSubmit env fd) = row_fields (interface_table Register)"
  by (simp add: body_fields_def register_onSubmit_def handleRegister_request_def
      keys_JSON_stringify)

lemma body_fields_login:
  "body_fields (login_onSubmit env fd) = row_fields (interface_table Login)"
  by (simp add: body_fields_def login_onSubmit_def handleLogin_request_def keys_JSON_stringify)

lemma body_fields_create:
  "body_fields (createListing_onSubmit env tok fd) =
     [''title'', ''description'', ''quantity'', ''food_type'', ''pickup_address'',
      ''expiry_hours'', ''image_url'']"
  by (simp add: body_fields_def createListing_onSubmit_def createListing_request_def
      keys_JSON_stringify)

lemma body_fields_request:
  "listingId \<noteq> Undefined \<Longrightarrow>
   body_fields (requestPickup_request env tok listingId m) = [''listing_id'', ''message'']"
  by (simp add: body_fields_def requestPickup_request_def keys_JSON_stringify Let_def)

text \<open>
  Claim C4, as stated, fails. With no environment variable set, the pickup request for
  listing 7 goes to \<^verbatim>\<open>/api/listings/7/request\<close> at the base address, not to
  \<^verbatim>\<open>/listings/7/request\<close>, and its body carries \<^verbatim>\<open>listing_id\<close> beside \<^verbatim>\<open>message\<close>, so it
  is not addressed as the table's row says; and the create-listing body names its optional
  image \<^verbatim>\<open>image_url\<close>, not \<^verbatim>\<open>image\<close>.
\<close>

theorem requestPickup_not_as_tabled:
  "\<not> addressed_as (API_BASE_URL Undefined) (interface_table (RequestPickup ''7''))
        (requestPickup_request Undefined (String ''t'') (String ''7'') (String ''hello''))
   \<and> url (requestPickup_request Undefined (String ''t'') (String ''7'') (String ''hello''))
       = ''http://localhost:8001/api/listings/7/request''
   \<and> body (requestPickup_request Undefined (String ''t'') (String ''7'') (String ''hello''))
       = Some [(''listing_id'', String ''7''), (''message'', String ''hello'')]
   \<and> body_fields (createListing_onSubmit Undefined (String ''t'') (example_form_data ''veg'' ''4''))
       = [''title'', ''description'', ''quantity'', ''food_type'', ''pickup_address'',
          ''expiry_hours'', ''image_url'']"
  by (simp add: addressed_as_def requestPickup_request_def API_BASE_URL_def js_or_def
      JSON_stringify_def json_value_def body_fields_create)

text \<open>
  Claim C4, amended. Every operation of the interface table is sent with the table's
  method to the table's path under the prefix \<^verbatim>\<open>/api\<close> of the base address. Registration,
  login, current user, listings, mark complete and statistics carry exactly the body
  fields the table lists: the registration body always has all seven fields, the login
  body has \<^verbatim>\<open>email\<close> and \<^verbatim>\<open>password\<close>, and the other four are sent without a body.
  The create-listing body carries the six required fields and \<^verbatim>\<open>image_url\<close>; the
  pickup-request body carries \<^verbatim>\<open>listing_id\<close> and \<^verbatim>\<open>message\<close>.
\<close>

theorem client_calls_addressed:
  "addressed_as (API_BASE_URL env @ ''/api'') (interface_table Register)
      (register_onSubmit env fd)
   \<and> addressed_as (API_BASE_URL env @ ''/api'') (interface_table Login)
      (login_onSubmit env fd)
   \<and> addressed_as (API_BASE_URL env @ ''/api'') (interface_table Me)
      (fetchCurrentUser_request env tok)
   \<and> addressed_as (API_BASE_URL env @ ''/api'') (interface_table GetListings)
      (fetchListings_request env tok)
   \<and> addressed_as (API_BASE_URL env @ ''/api'') (interface_table (CompleteListing i))
      (markComplete_request env tok (String i))
   \<and> addressed_as (API_BASE_URL env @ ''/api'') (interface_table DashboardStats)
      (fetchStats_request env tok)
   \<and> http_method (createListing_onSubmit env tok fd)
       = row_method (interface_table CreateListing)
   \<and> url (createListing_onSubmit env tok fd)
       = API_BASE_URL env @ ''/api'' @ row_path (interface_table CreateListing)
   \<and> body_fields (createListing_onSubmit env tok fd) =
       [''title'', ''description'', ''quantity'', ''food_type'', ''pickup_address'',
        ''expiry_hours'', ''image_url'']
   \<and> http_method (requestPickup_request env tok (String i) m)
       = row_method (interface_table (RequestPickup i))
   \<and> url (requestPickup_request env tok (String i) m)
       = API_BASE_URL env @ ''/api'' @ row_path (interface_table (RequestPickup i))
   \<and> body_fields (requestPickup_request env tok (String i) m) = [''listing_id'', ''message'']
   \<and> body_fields (register_onSubmit env fd) =
       [''name'', ''email'', ''password'', ''role'', ''phone'', ''address'', ''organization'']
   \<and> body_fields (login_onSubmit env fd) = [''email'', ''password'']
   \<and> body (fetchCurrentUser_request env tok) = None
   \<and> body (fetchListings_request env tok) = None
   \<and> body (markComplete_request env tok (String i)) = None
   \<and> body (fetchStats_request env tok) = None"
proof -
  have 1: "addressed_as (API_BASE_URL env @ ''/api'') (interface_table Register)
      (register_onSubmit env fd)"
    unfolding addressed_as_def body_fields_register
    by (simp add: register_onSubmit_def handleRegister_request_def)
  have 2: "addressed_as (API_BASE_URL env @ ''/api'') (interface_table Login)
      (login_onSubmit env fd)"
    unfolding addressed_as_def body_fields_login
    by (simp add: login_onSubmit_def handleLogin_request_def)
  have 3: "addressed_as (API_BASE_URL env @ ''/api'') (interface_table Me)
      (fetchCurrentUser_request env tok)"
    by (simp add: addressed_as_def fetchCurrentUser_request_def body_fields_def)
  have 4: "addressed_as (API_BASE_URL env @ ''/api'') (interface_table GetListings)
      (fetchListings_request env tok)"
    by (simp add: addressed_as_def fetchListings_request_def body_fields_def)
  have 5: "addressed_as (API_BASE_URL env @ ''/api'') (interface_table (CompleteListing i))
      (markComplete_request env tok (String i))"
    by (simp add: addressed_as_def markComplete_request_def body_fields_def)
  have 6: "addressed_as (API_BASE_URL env @ ''/api'') (interface_table DashboardStats)
      (fetchStats_request env tok)"
    by (simp add: addressed_as_def fetchStats_request_def body_fields_def)
  have 7: "http_method (createListing_onSubmit env tok fd) = ''POST''
      \<and> url (createListing_onSubmit env tok fd) = API_BASE_URL env @ ''/api/listings''"
    by (simp add: createListing_onSubmit_def createListing_request_def)
  have 8: "http_method (requestPickup_request env tok (String i) m) = ''POST''
      \<and> url (requestPickup_request env tok (String i) m)
          = API_BASE_URL env @ ''/api/listings/'' @ i @ ''/request''"
    by (simp add: requestPickup_request_def Let_def)
  have 9: "body (fetchCurrentUser_request env tok) = None
      \<and> body (fetchListings_request env tok) = None
      \<and> body (markComplete_request env tok (String i)) = None
      \<and> body (fetchStats_request env tok) = None"
    by (simp add: fetchCurrentUser_request_def fetchListings_request_def
        markComplete_request_def fetchStats_request_def)
  have 10: "body_fields (register_onSubmit env fd) =
       [''name'', ''email'', ''password'', ''role'', ''phone'', ''address'', ''organization'']
      \<and> body_fields (login_onSubmit env fd) = [''email'', ''password'']"
    by (simp add: body_fields_register body_fields_login)
  have 11: "body_fields (createListing_onSubmit env tok fd) =
       [''title'', ''description'', ''quantity'', ''food_type'', ''pickup_address'',
        ''expiry_hours'', ''image_url'']
      \<and> body_fields (requestPickup_request env tok (String i) m)
          = [''listing_id'', ''message'']"
    by (simp add: body_fields_create body_fields_request)
  from 1 2 3 4 5 6 7 8 9 10 11 show ?thesis
    by simp
qed

theorem client_calls_addressed_witness:
  "addressed_as ''http://localhost:8001/api'' (interface_table Login)
      (login_onSubmit Undefined [(''email'', ''a@b.c''), (''password'', ''pw'')])
   \<and> addressed_as ''http://localhost:8001/api'' (interface_table (CompleteListing ''7''))
      (markComplete_request Undefined (String ''t'') (String ''7''))
   \<and> url (requestPickup_request Undefined (String ''t'') (String ''7'') (String ''hello''))
       = ''http://localhost:8001/api/listings/7/request''
   \<and> body_fields (requestPickup_request Undefined (String ''t'') (String ''7'')
        (String ''hello'')) = [''listing_id'', ''message'']
   \<and> body_fields (register_onSubmit Undefined [(''email'', ''a@b.c''), (''password'', ''pw'')])
       = [''name'', ''email'', ''password'', ''role'', ''phone'', ''address'', ''organization'']
   \<and> body (markComplete_request Undefined (String ''t'') (String ''7'')) = None"
  using client_calls_addressed [of Undefined "[(''email'', ''a@b.c''), (''password'', ''pw'')]"
      "String ''t''" "''7''" "String ''hello''"]
  by (simp add: API_BASE_URL_def js_or_def)

text \<open>
  Claim C9. Cancelling the prompt issues no request; any other answer issues the pickup
  request for the listing's \<^verbatim>\<open>listing_id\<close> with the answer as the message. The body of
  every pickup request has a \<^verbatim>\<open>message\<close> field, the empty string when no message was passed;
  its \<^verbatim>\<open>listing_id\<close> is the id that is also in the path, and for a listing that has an id
  the body's fields are \<^verbatim>\<open>listing_id\<close> and \<^verbatim>\<open>message\<close>.
\<close>

theorem requestPickup_body:
  "requestPickup_onClick env tok listing Null = None
   \<and> requestPickup_onClick env tok listing (String msg)
        = Some (requestPickup_request env tok (field listing ''listing_id'') (String msg))
   \<and> (\<exists>b. body (requestPickup_request env tok listingId message0) = Some b
        \<and> ''message'' \<in> set (keys b)
        \<and> field b ''message'' = (if message0 = Undefined then String [] else json_value message0)
        \<and> field b ''listing_id'' = json_value listingId
        \<and> (listingId \<noteq> Undefined \<longrightarrow> keys b = [''listing_id'', ''message'']))
   \<and> url (requestPickup_request env tok listingId message0)
        = API_BASE_URL env @ ''/api/listings/'' @ to_string listingId @ ''/request''"
  by (simp add: requestPickup_onClick_def requestPickup_request_def Let_def keys_JSON_stringify)
     (auto simp: JSON_stringify_def field_def json_value_def)

theorem requestPickup_body_witness:
  "requestPickup_onClick Undefined (String ''t'') [(''listing_id'', String ''7'')] (String '''')
     = Some \<lparr>http_method = ''POST'', url = ''http://localhost:8001/api/listings/7/request'',
         headers = [(''Content-Type'', ''application/json''), (''Authorization'', ''Bearer t'')],
         body = Some [(''listing_id'', String ''7''), (''message'', String '''')]\<rparr>
   \<and> (\<exists>b. body (requestPickup_request Undefined (String ''t'') (String ''7'') Undefined) = Some b
        \<and> keys b = [''listing_id'', ''message''] \<and> field b ''message'' = String [])"
  using requestPickup_body [of Undefined "String ''t''" "[(''listing_id'', String ''7'')]" "''''"
      "String ''7''" Undefined]
  by (simp add: requestPickup_request_def API_BASE_URL_def js_or_def JSON_stringify_def
      json_value_def field_def Let_def keys_def)

section \<open>Properties of the \<^verbatim>\<open>App\<close> component\<close>

text \<open>
  Claim C10. For every authenticated user, that is whenever the \<^verbatim>\<open>user\<close> cell holds a
  record: if its \<^verbatim>\<open>role\<close> field is anything but the string \<^verbatim>\<open>donor\<close> (another string, a
  value of another type, or no field at all), the application shows the badge \<^verbatim>\<open>NGO\<close> and
  the NGO dashboard; only the string \<^verbatim>\<open>donor\<close> gives the badge \<^verbatim>\<open>Donor\<close> and the donor
  dashboard. No role is rejected.
\<close>

theorem role_dispatch:
  assumes "user s = Some u"
  shows "(field u ''role'' \<noteq> String ''donor''
           \<longrightarrow> App_render s = MainDashboard ''NGO'' (field u ''name'') (NGODashboard (token s)))
       \<and> (field u ''role'' = String ''donor''
           \<longrightarrow> App_render s
                = MainDashboard ''Donor'' (field u ''name'') (DonorDashboard (token s)))"
  using assms by (simp add: App_render_def)

theorem role_dispatch_witness:
  "App_render ((App_initial (Some ''t''))
       \<lparr>user := Some [(''name'', String ''Eve''), (''role'', String ''admin'')]\<rparr>)
     = MainDashboard ''NGO'' (String ''Eve'') (NGODashboard (String ''t''))
   \<and> App_render ((App_initial (Some ''t''))\<lparr>user := Some [(''name'', String ''Eve'')]\<rparr>)
     = MainDashboard ''NGO'' (String ''Eve'') (NGODashboard (String ''t''))
   \<and> App_render ((App_initial (Some ''t''))
       \<lparr>user := Some [(''name'', String ''Dan''), (''role'', String ''donor'')]\<rparr>)
     = MainDashboard ''Donor'' (String ''Dan'') (DonorDashboard (String ''t''))"
  using
    role_dispatch [of "(App_initial (Some ''t''))
       \<lparr>user := Some [(''name'', String ''Eve''), (''role'', String ''admin'')]\<rparr>"
      "[(''name'', String ''Eve''), (''role'', String ''admin'')]"]
    role_dispatch [of "(App_initial (Some ''t''))\<lparr>user := Some [(''name'', String ''Eve'')]\<rparr>"
      "[(''name'', String ''Eve'')]"]
    role_dispatch [of "(App_initial (Some ''t''))
       \<lparr>user := Some [(''name'', String ''Dan''), (''role'', String ''donor'')]\<rparr>"
      "[(''name'', String ''Dan''), (''role'', String ''donor'')]"]
  by (simp add: App_initial_def field_def)

text \<open>One event sets the user record only by handing one over.\<close>

lemma step_user:
  "user (step s e) = Some u \<Longrightarrow> user s = Some u \<or> delivers_user e u"
proof (cases e)
  case (FetchCurrentUserDone r)
  assume "user (step s e) = Some u"
  with FetchCurrentUserDone show ?thesis
    by (cases "(r, s)" rule: fetchCurrentUser.cases) auto
next
  case (LoginDone r)
  assume "user (step s e) = Some u"
  with LoginDone show ?thesis
    by (cases "(r, s)" rule: handleLogin.cases) auto
next
  case (RegisterDone r)
  assume "user (step s e) = Some u"
  with RegisterDone show ?thesis
    by (cases "(r, s)" rule: handleRegister.cases) auto
next
  case Logout
  assume "user (step s e) = Some u"
  with Logout show ?thesis by (simp add: handleLogout_def)
next
  case (SetCurrentView v)
  assume "user (step s e) = Some u"
  with SetCurrentView show ?thesis by simp
qed

lemma run_user:
  "user (run s es) = Some u \<Longrightarrow> user s = Some u \<or> (\<exists>e \<in> set es. delivers_user e u)"
proof (induction es arbitrary: s)
  case Nil
  then show ?case by (simp add: run_def)
next
  case (Cons e es)
  then have "user (run (step s e) es) = Some u" by (simp add: run_def)
  from Cons.IH [OF this] show ?case
    using step_user [of s e u] by auto
qed

text \<open>
  Claim C8, as stated, fails: a failed \<^verbatim>\<open>/auth/me\<close> call does not clear the user state.
  After a successful login the token changes, the effect calls \<^verbatim>\<open>fetchCurrentUser\<close>, and
  when that call comes back not OK the user record is still there: the donor dashboard is
  rendered, with a null token.
\<close>

theorem fetchCurrentUser_failure_keeps_user:
  "user (fetchCurrentUser (Response False None)
          (handleLogin (Response True (Some example_auth_data)) (App_initial None)))
     = Some [(''name'', String ''Dan''), (''role'', String ''donor'')]
   \<and> App_render (fetchCurrentUser (Response False None)
          (handleLogin (Response True (Some example_auth_data)) (App_initial None)))
     = MainDashboard ''Donor'' (String ''Dan'') (DonorDashboard Null)"
  by (simp add: App_initial_def App_render_def field_def example_auth_data_def)

text \<open>
  Claim C8, amended. Whenever the \<^verbatim>\<open>/auth/me\<close> call rejects, returns a non-OK response,
  or returns a body that does not parse, the client removes the token from
  \<^verbatim>\<open>localStorage\<close> and sets its token state to null, and leaves the user state and the
  current view as they were. From the first render, whatever token was stored and whatever
  happens, the application renders a dashboard only when its user record was handed over
  by a successful login, registration or \<^verbatim>\<open>/auth/me\<close> response.
\<close>

theorem dashboard_only_with_delivered_user:
  "(r = NetworkError \<or> r = Response True None \<or> r = Response False b
      \<longrightarrow> localStorage_token (fetchCurrentUser r s) = None
        \<and> token (fetchCurrentUser r s) = Null
        \<and> user (fetchCurrentUser r s) = user s
        \<and> currentView (fetchCurrentUser r s) = currentView s)
   \<and> (App_render (run (App_initial stored) es) = MainDashboard badge nm d
      \<longrightarrow> (\<exists>u. user (run (App_initial stored) es) = Some u
             \<and> (\<exists>e \<in> set es. delivers_user e u)))"
proof (rule conjI)
  show "r = NetworkError \<or> r = Response True None \<or> r = Response False b
      \<longrightarrow> localStorage_token (fetchCurrentUser r s) = None
        \<and> token (fetchCurrentUser r s) = Null
        \<and> user (fetchCurrentUser r s) = user s
        \<and> currentView (fetchCurrentUser r s) = currentView s"
    by auto
next
  show "App_render (run (App_initial stored) es) = MainDashboard badge nm d
      \<longrightarrow> (\<exists>u. user (run (App_initial stored) es) = Some u
             \<and> (\<exists>e \<in> set es. delivers_user e u))"
  proof
    assume "App_render (run (App_initial stored) es) = MainDashboard badge nm d"
    then obtain u where u: "user (run (App_initial stored) es) = Some u"
      by (auto simp: App_render_def split: option.splits if_splits)
    have "user (App_initial stored) = None" by (simp add: App_initial_def)
    with run_user [OF u] have "\<exists>e \<in> set es. delivers_user e u" by simp
    with u show "\<exists>u. user (run (App_initial stored) es) = Some u
             \<and> (\<exists>e \<in> set es. delivers_user e u)" by blast
  qed
qed

theorem dashboard_only_with_delivered_user_witness:
  "localStorage_token (fetchCurrentUser (Response False None) (App_initial (Some ''stale'')))
     = None
   \<and> token (fetchCurrentUser (Response False None) (App_initial (Some ''stale''))) = Null
   \<and> App_render (fetchCurrentUser (Response False None) (App_initial (Some ''stale'')))
     = LoginForm
   \<and> App_render (run (App_initial (Some ''t''))
        [FetchCurrentUserDone (Response True (Some (Some [(''role'', String ''ngo'')])))])
      = MainDashboard ''NGO'' Undefined (NGODashboard (String ''t''))
   \<and> (\<exists>u. user (run (App_initial (Some ''t''))
        [FetchCurrentUserDone (Response True (Some (Some [(''role'', String ''ngo'')])))])
          = Some u
        \<and> (\<exists>e \<in> set [FetchCurrentUserDone
                        (Response True (Some (Some [(''role'', String ''ngo'')])))].
              delivers_user e u))"
  using dashboard_only_with_delivered_user [of "Response False None" None
      "App_initial (Some ''stale'')" "Some ''t''"
      "[FetchCurrentUserDone (Response True (Some (Some [(''role'', String ''ngo'')])))]"
      "''NGO''" Undefined "NGODashboard (String ''t'')"]
  by (simp add: App_initial_def App_render_def run_def field_def)

section \<open>The token on the client's calls\<close>

text \<open>Each call other than login and registration is built with the header
  \<^verbatim>\<open>Authorization\<close> holding \<^verbatim>\<open>Bearer\<close>, a space and the string conversion of the token it
  is given; the login and registration calls are built without that header.\<close>

lemma request_builders_authorization:
  "header (fetchCurrentUser_request env tok) ''Authorization''
       = Some (''Bearer '' @ to_string tok)
   \<and> header (fetchListings_request env tok) ''Authorization''
       = Some (''Bearer '' @ to_string tok)
   \<and> header (fetchStats_request env tok) ''Authorization''
       = Some (''Bearer '' @ to_string tok)
   \<and> header (createListing_request env tok listingData) ''Authorization''
       = Some (''Bearer '' @ to_string tok)
   \<and> header (markComplete_request env tok listingId) ''Authorization''
       = Some (''Bearer '' @ to_string tok)
   \<and> header (requestPickup_request env tok listingId m) ''Authorization''
       = Some (''Bearer '' @ to_string tok)
   \<and> header (handleLogin_request env credentials) ''Authorization'' = None
   \<and> header (handleRegister_request env userData) ''Authorization'' = None"
  by (simp add: header_def fetchCurrentUser_request_def fetchListings_request_def
      fetchStats_request_def createListing_request_def markComplete_request_def
      requestPickup_request_def handleLogin_request_def handleRegister_request_def Let_def)












section \<open>Properties of expiry and completion\<close>

lemma hours_remaining_mono: "t1 \<le> t2 \<Longrightarrow> hours_remaining l t2 \<le> hours_remaining l t1"
  by (simp add: hours_remaining_def elapsed_hours_def max_def divide_right_mono)

lemma hours_remaining_zero_iff: "hours_remaining l t = 0 \<longleftrightarrow> expiry_instant l \<le> t"
  by (auto simp add: hours_remaining_def elapsed_hours_def expiry_instant_def max_def
      field_simps)

lemma hours_remaining_nonneg: "0 \<le> hours_remaining l t"
  by (simp add: hours_remaining_def)

text \<open>
  Claim C2. At every read the hours remaining of a listing are
  \<^verbatim>\<open>max(0, expiry_hours - elapsed_hours(created_at, now))\<close>; they are a function of the
  listing's creation time, its expiry hours and the time of the read alone (nothing stored
  enters); they never increase as the clock advances; they are positive before the instant
  \<^verbatim>\<open>created_at + expiry_hours\<close>, exactly 0 at that instant and 0 from then on.
\<close>

theorem hours_remaining_derived:
  "hours_remaining l now
     = max 0 (real_of_int (expiry_hours l) - elapsed_hours (created_at l) now)
   \<and> (created_at l' = created_at l \<and> expiry_hours l' = expiry_hours l
        \<longrightarrow> hours_remaining l' now = hours_remaining l now)
   \<and> (t1 \<le> t2 \<longrightarrow> hours_remaining l t2 \<le> hours_remaining l t1)
   \<and> hours_remaining l (expiry_instant l) = 0
   \<and> (t < expiry_instant l \<longrightarrow> 0 < hours_remaining l t)
   \<and> (expiry_instant l \<le> t \<longrightarrow> hours_remaining l t = 0)"
proof -
  have pos: "0 < hours_remaining l t" if "t < expiry_instant l"
  proof -
    from that have "hours_remaining l t \<noteq> 0" by (simp add: hours_remaining_zero_iff)
    with hours_remaining_nonneg [of l t] show ?thesis by simp
  qed
  show ?thesis
    using pos
    by (simp add: hours_remaining_mono hours_remaining_zero_iff)
       (simp add: hours_remaining_def)
qed

theorem hours_remaining_derived_witness:
  "hours_remaining example_listing 3600 = 3
   \<and> hours_remaining (example_listing\<lparr>status := Requested\<rparr>) 3600
       = hours_remaining example_listing 3600
   \<and> hours_remaining example_listing 7200 \<le> hours_remaining example_listing 3600
   \<and> 0 < hours_remaining example_listing 14399
   \<and> hours_remaining example_listing 14400 = 0
   \<and> hours_remaining example_listing 20000 = 0"
  using hours_remaining_derived [of example_listing 3600
      "example_listing\<lparr>status := Requested\<rparr>" 3600 7200 14399]
    hours_remaining_derived [of example_listing 3600 example_listing 0 0 20000]
  by (simp add: expiry_instant_def example_listing_def elapsed_hours_def)

lemma find_after_complete:
  "find (\<lambda>l. listing_id l = lid)
     (map (\<lambda>x. if listing_id x = lid then x\<lparr>status := Completed\<rparr> else x) ls)
   = map_option (\<lambda>x. x\<lparr>status := Completed\<rparr>) (find (\<lambda>l. listing_id l = lid) ls)"
  by (induction ls) simp_all

lemma effective_status_completed:
  "status l = Completed \<Longrightarrow> effective_status l now = Completed"
  by (simp add: effective_status_def)

lemma completeListing_twice:
  assumes "completeListing st lid donor now = Inr st'"
  shows "completeListing st' lid donor' now' = Inl InvalidState"
proof -
  from assms obtain l where l: "find_listing st lid = Some l"
    by (auto simp: completeListing_def split: option.splits)
  with assms have st': "st' = st\<lparr>listings :=
       map (\<lambda>x. if listing_id x = lid then x\<lparr>status := Completed\<rparr> else x) (listings st)\<rparr>"
    by (auto simp: completeListing_def split: if_splits)
  have "find_listing st' lid = Some (l\<lparr>status := Completed\<rparr>)"
    using l by (simp add: st' find_listing_def find_after_complete)
  then show ?thesis
    by (simp add: completeListing_def effective_status_completed)
qed

text \<open>
  Claim C3. For a listing that exists: completion succeeds only when the effective status
  is \<open>requested\<close> and the caller is the owner; it fails with \<open>InvalidState\<close> whenever the
  effective status is not \<open>requested\<close>, and with \<open>Forbidden\<close> when the listing is
  \<open>requested\<close> and the caller is not the owner; when it succeeds, any further call on the
  listing, by anyone at any time, fails with \<open>InvalidState\<close>. In the client the
  \<^verbatim>\<open>Mark Complete\<close> button is rendered exactly for the listings whose \<^verbatim>\<open>status\<close> is the
  string \<^verbatim>\<open>requested\<close>.
\<close>

theorem completeListing_guarded:
  assumes "find_listing st lid = Some l"
  shows "(completeListing st lid donor now = Inr st'
            \<longrightarrow> effective_status l now = Requested \<and> owner_id l = donor)
       \<and> (effective_status l now \<noteq> Requested
            \<longrightarrow> completeListing st lid donor now = Inl InvalidState)
       \<and> (effective_status l now = Requested \<and> owner_id l \<noteq> donor
            \<longrightarrow> completeListing st lid donor now = Inl Forbidden)
       \<and> (effective_status l now = Requested \<and> owner_id l = donor
            \<longrightarrow> (\<exists>st2. completeListing st lid donor now = Inr st2
                   \<and> completeListing st2 lid donor' now' = Inl InvalidState))
       \<and> (markComplete_offered listing \<longleftrightarrow> field listing ''status'' = String ''requested'')"
proof -
  have a: "completeListing st lid donor now = Inr st'
            \<longrightarrow> effective_status l now = Requested \<and> owner_id l = donor"
    using assms by (auto simp: completeListing_def split: if_splits)
  have b: "effective_status l now \<noteq> Requested
            \<longrightarrow> completeListing st lid donor now = Inl InvalidState"
    using assms by (simp add: completeListing_def)
  have c: "effective_status l now = Requested \<and> owner_id l \<noteq> donor
            \<longrightarrow> completeListing st lid donor now = Inl Forbidden"
    using assms by (simp add: completeListing_def)
  have d: "effective_status l now = Requested \<and> owner_id l = donor
            \<longrightarrow> (\<exists>st2. completeListing st lid donor now = Inr st2
                   \<and> completeListing st2 lid donor' now' = Inl InvalidState)"
  proof
    assume h: "effective_status l now = Requested \<and> owner_id l = donor"
    with assms obtain st2 where s: "completeListing st lid donor now = Inr st2"
      by (simp add: completeListing_def)
    from completeListing_twice [OF s] s
    show "\<exists>st2. completeListing st lid donor now = Inr st2
                   \<and> completeListing st2 lid donor' now' = Inl InvalidState" by blast
  qed
  have e: "markComplete_offered listing \<longleftrightarrow> field listing ''status'' = String ''requested''"
    by (simp add: markComplete_offered_def)
  from a b c d e show ?thesis by blast
qed

theorem completeListing_guarded_witness:
  "find_listing example_store ''L1'' = Some (example_listing\<lparr>status := Requested\<rparr>)
   \<and> effective_status (example_listing\<lparr>status := Requested\<rparr>) 3600 = Requested
   \<and> owner_id (example_listing\<lparr>status := Requested\<rparr>) = ''d1''
   \<and> (\<exists>st2. completeListing example_store ''L1'' ''d1'' 3600 = Inr st2
          \<and> completeListing st2 ''L1'' ''d1'' 3700 = Inl InvalidState)
   \<and> completeListing example_store ''L1'' ''d2'' 3600 = Inl Forbidden
   \<and> completeListing example_store ''L1'' ''d1'' 14400 = Inl InvalidState
   \<and> markComplete_offered [(''listing_id'', String ''L1''), (''status'', String ''requested'')]"
proof -
  have f: "find_listing example_store ''L1'' = Some (example_listing\<lparr>status := Requested\<rparr>)"
    by (simp add: find_listing_def example_store_def example_listing_def)
  have e: "effective_status (example_listing\<lparr>status := Requested\<rparr>) 3600 = Requested"
    by (simp add: effective_status_def hours_remaining_def elapsed_hours_def
        example_listing_def)
  have e2: "effective_status (example_listing\<lparr>status := Requested\<rparr>) 14400 \<noteq> Requested"
    by (simp add: effective_status_def hours_remaining_def elapsed_hours_def
        example_listing_def)
  have ow: "owner_id (example_listing\<lparr>status := Requested\<rparr>) = ''d1''"
    by (simp add: example_listing_def)
  show ?thesis
    using completeListing_guarded [OF f, of "''d1''" 3600 _ "''d1''" 3700
        "[(''listing_id'', String ''L1''), (''status'', String ''requested'')]"]
      completeListing_guarded [OF f, of "''d2''" 3600]
      completeListing_guarded [OF f, of "''d1''" 14400]
      f e e2 ow
    by (simp add: field_def)
qed


section \<open>Properties of listing creation\<close>

lemma parseInt_options:
  "parseInt (String ''2'') = Number 2" "parseInt (String ''4'') = Number 4"
  "parseInt (String ''6'') = Number 6" "parseInt (String ''12'') = Number 12"
  "parseInt (String ''24'') = Number 24"
  by (simp_all add: parseInt_def is_whitespace_def radix_digit_def digit_of_char_def Let_def)

text \<open>What a submitted create-listing form holds.\<close>

lemma submitted_createListing_form:
  assumes "submitted createListing_form fd"
  obtains t q f e d p i where
    "fd = [(''title'', t), (''quantity'', q), (''food_type'', f), (''expiry_hours'', e),
           (''description'', d), (''pickup_address'', p), (''image_url'', i)]"
    "t \<noteq> []" "q \<noteq> []" "d \<noteq> []" "p \<noteq> []"
    "f \<in> {''veg'', ''non-veg'', ''both''}" "e \<in> {''2'', ''4'', ''6'', ''12'', ''24''}"
  using assms
  by (auto simp: submitted_def createListing_form_def list_all2_Cons1 control_entry_def)

lemma validate_listing_fields:
  assumes "validate_listing b"
  shows "(\<exists>n \<in> {2, 4, 6, 12, 24}. field b ''expiry_hours'' = Number n)
       \<and> (\<exists>f \<in> {''veg'', ''non-veg'', ''both''}. field b ''food_type'' = String f)
       \<and> (\<forall>k \<in> {''title'', ''description'', ''quantity'', ''pickup_address''}.
             \<exists>s. s \<noteq> [] \<and> field b k = String s)"
  using assms
  by (auto simp: validate_listing_def expiry_hours_allowed_def food_types_def
      required_fields_def non_empty_string_def split: jsval.splits)

lemma create_listing_validates:
  "create_listing st caller new_id now input = Inr st' \<Longrightarrow> validate_listing input"
  by (auto simp: create_listing_def split: if_splits)

lemma submitted_body_validates:
  assumes "submitted createListing_form formData"
  shows "\<exists>b. body (createListing_onSubmit env tok formData) = Some b \<and> validate_listing b"
proof -
  from assms obtain t q f e d p i where
    fd: "formData = [(''title'', t), (''quantity'', q), (''food_type'', f),
           (''expiry_hours'', e), (''description'', d), (''pickup_address'', p),
           (''image_url'', i)]"
    and ne: "t \<noteq> []" "q \<noteq> []" "d \<noteq> []" "p \<noteq> []"
    and f: "f \<in> {''veg'', ''non-veg'', ''both''}"
    and e: "e \<in> {''2'', ''4'', ''6'', ''12'', ''24''}"
    by (rule submitted_createListing_form)
  from e have pe: "parseInt (String e) \<in> {Number 2, Number 4, Number 6, Number 12, Number 24}"
    using parseInt_options by auto
  then have pe': "parseInt (String e) \<noteq> Undefined" "parseInt (String e) \<noteq> NaN" by auto
  show ?thesis
    using ne f pe pe'
    by (simp add: fd createListing_onSubmit_def createListing_request_def formData_get_def
        JSON_stringify_def json_value_def js_or_def validate_listing_def
        expiry_hours_allowed_def food_types_def required_fields_def non_empty_string_def
        field_def)
qed

lemma example_form_submitted:
  "f \<in> {''veg'', ''non-veg'', ''both''} \<Longrightarrow> e \<in> {''2'', ''4'', ''6'', ''12'', ''24''} \<Longrightarrow>
   submitted createListing_form (example_form_data f e)"
  by (auto simp: submitted_def createListing_form_def example_form_data_def control_entry_def)

lemma example_form_body:
  "parseInt (String e) = Number n \<Longrightarrow>
   body (createListing_onSubmit env tok (example_form_data f e)) =
     Some [(''title'', String ''Rice''), (''description'', String ''Fresh''),
           (''quantity'', String ''5kg''), (''food_type'', String f),
           (''pickup_address'', String ''1 Main St''), (''expiry_hours'', Number n),
           (''image_url'', Null)]"
  by (simp add: example_form_data_def createListing_onSubmit_def createListing_request_def
      formData_get_def JSON_stringify_def json_value_def js_or_def)

lemma form_reaches_expiry_hours:
  assumes p: "parseInt (String e) = Number n" and m: "e \<in> {''2'', ''4'', ''6'', ''12'', ''24''}"
  shows "\<exists>fd b. submitted createListing_form fd
        \<and> body (createListing_onSubmit env tok fd) = Some b
        \<and> field b ''expiry_hours'' = Number n"
  using example_form_submitted [of "''veg''" e] m example_form_body [OF p, of env tok "''veg''"]
  by (intro exI [of _ "example_form_data ''veg'' e"]) (simp add: field_def)

lemma form_reaches_food_type:
  assumes m: "f \<in> {''veg'', ''non-veg'', ''both''}"
  shows "\<exists>fd b. submitted createListing_form fd
        \<and> body (createListing_onSubmit env tok fd) = Some b
        \<and> field b ''food_type'' = String f"
  using example_form_submitted [of f "''2''"] m
    example_form_body [OF parseInt_options(1), of env tok f]
  by (intro exI [of _ "example_form_data f ''2''"]) (simp add: field_def)

text \<open>
  Claim C5. Creation accepts a body only if its \<^verbatim>\<open>expiry_hours\<close> is an integer among
  2, 4, 6, 12 and 24, its \<^verbatim>\<open>food_type\<close> is one of \<^verbatim>\<open>veg\<close>, \<^verbatim>\<open>non-veg\<close> and \<^verbatim>\<open>both\<close>, and its
  title, description, quantity and pickup address are non-empty strings. Every body the
  client's form submits satisfies the same three conditions, with \<^verbatim>\<open>expiry_hours\<close> sent as
  a number, and passes the validation; and the form can submit each of the five expiry
  values and each of the three food types.
\<close>

theorem createListing_body_validated:
  "(create_listing st caller new_id now input = Inr st'
      \<longrightarrow> (\<exists>n \<in> {2, 4, 6, 12, 24}. field input ''expiry_hours'' = Number n)
        \<and> (\<exists>f \<in> {''veg'', ''non-veg'', ''both''}. field input ''food_type'' = String f)
        \<and> (\<forall>k \<in> {''title'', ''description'', ''quantity'', ''pickup_address''}.
              \<exists>s. s \<noteq> [] \<and> field input k = String s))
   \<and> (submitted createListing_form formData
      \<longrightarrow> (\<exists>b. body (createListing_onSubmit env tok formData) = Some b
             \<and> (\<exists>n \<in> {2, 4, 6, 12, 24}. field b ''expiry_hours'' = Number n)
             \<and> (\<exists>f \<in> {''veg'', ''non-veg'', ''both''}. field b ''food_type'' = String f)
             \<and> (\<forall>k \<in> {''title'', ''description'', ''quantity'', ''pickup_address''}.
                   \<exists>s. s \<noteq> [] \<and> field b k = String s)
             \<and> validate_listing b))
   \<and> (\<forall>n \<in> {2, 4, 6, 12, 24}. \<exists>fd b. submitted createListing_form fd
        \<and> body (createListing_onSubmit env tok fd) = Some b
        \<and> field b ''expiry_hours'' = Number n)
   \<and> (\<forall>f \<in> {''veg'', ''non-veg'', ''both''}. \<exists>fd b. submitted createListing_form fd
        \<and> body (createListing_onSubmit env tok fd) = Some b
        \<and> field b ''food_type'' = String f)"
proof (intro conjI)
  show "create_listing st caller new_id now input = Inr st'
      \<longrightarrow> (\<exists>n \<in> {2, 4, 6, 12, 24}. field input ''expiry_hours'' = Number n)
        \<and> (\<exists>f \<in> {''veg'', ''non-veg'', ''both''}. field input ''food_type'' = String f)
        \<and> (\<forall>k \<in> {''title'', ''description'', ''quantity'', ''pickup_address''}.
              \<exists>s. s \<noteq> [] \<and> field input k = String s)"
  proof (rule impI)
    assume c: "create_listing st caller new_id now input = Inr st'"
    show "(\<exists>n \<in> {2, 4, 6, 12, 24}. field input ''expiry_hours'' = Number n)
        \<and> (\<exists>f \<in> {''veg'', ''non-veg'', ''both''}. field input ''food_type'' = String f)
        \<and> (\<forall>k \<in> {''title'', ''description'', ''quantity'', ''pickup_address''}.
              \<exists>s. s \<noteq> [] \<and> field input k = String s)"
      by (rule validate_listing_fields [OF create_listing_validates [OF c]])
  qed
next
  show "submitted createListing_form formData
      \<longrightarrow> (\<exists>b. body (createListing_onSubmit env tok formData) = Some b
             \<and> (\<exists>n \<in> {2, 4, 6, 12, 24}. field b ''expiry_hours'' = Number n)
             \<and> (\<exists>f \<in> {''veg'', ''non-veg'', ''both''}. field b ''food_type'' = String f)
             \<and> (\<forall>k \<in> {''title'', ''description'', ''quantity'', ''pickup_address''}.
                   \<exists>s. s \<noteq> [] \<and> field b k = String s)
             \<and> validate_listing b)"
  proof (rule impI)
    assume s: "submitted createListing_form formData"
    from submitted_body_validates [OF s, of env tok] obtain bb where
      bb: "body (createListing_onSubmit env tok formData) = Some bb"
      and vb: "validate_listing bb"
      by (elim exE conjE)
    from validate_listing_fields [OF vb] bb vb
    show "\<exists>b. body (createListing_onSubmit env tok formData) = Some b
             \<and> (\<exists>n \<in> {2, 4, 6, 12, 24}. field b ''expiry_hours'' = Number n)
             \<and> (\<exists>f \<in> {''veg'', ''non-veg'', ''both''}. field b ''food_type'' = String f)
             \<and> (\<forall>k \<in> {''title'', ''description'', ''quantity'', ''pickup_address''}.
                   \<exists>s. s \<noteq> [] \<and> field b k = String s)
             \<and> validate_listing b"
      by (intro exI [of _ bb]) simp
  qed
next
  show "\<forall>n \<in> {2, 4, 6, 12, 24}. \<exists>fd b. submitted createListing_form fd
        \<and> body (createListing_onSubmit env tok fd) = Some b
        \<and> field b ''expiry_hours'' = Number n"
    using form_reaches_expiry_hours [OF parseInt_options(1)]
      form_reaches_expiry_hours [OF parseInt_options(2)]
      form_reaches_expiry_hours [OF parseInt_options(3)]
      form_reaches_expiry_hours [OF parseInt_options(4)]
      form_reaches_expiry_hours [OF parseInt_options(5)]
    by simp
next
  show "\<forall>f \<in> {''veg'', ''non-veg'', ''both''}. \<exists>fd b. submitted createListing_form fd
        \<and> body (createListing_onSubmit env tok fd) = Some b
        \<and> field b ''food_type'' = String f"
    using form_reaches_food_type by blast
qed

theorem createListing_body_validated_witness:
  "submitted createListing_form (example_form_data ''non-veg'' ''12'')
   \<and> body (createListing_onSubmit Undefined (String ''t'') (example_form_data ''non-veg'' ''12''))
       = Some [(''title'', String ''Rice''), (''description'', String ''Fresh''),
           (''quantity'', String ''5kg''), (''food_type'', String ''non-veg''),
           (''pickup_address'', String ''1 Main St''), (''expiry_hours'', Number 12),
           (''image_url'', Null)]
   \<and> validate_listing [(''title'', String ''Rice''), (''description'', String ''Fresh''),
           (''quantity'', String ''5kg''), (''food_type'', String ''non-veg''),
           (''pickup_address'', String ''1 Main St''), (''expiry_hours'', Number 12),
           (''image_url'', Null)]
   \<and> (\<exists>st'. create_listing \<lparr>listings = [], requests = []\<rparr>
          \<lparr>user_id = ''d1'', user_role = Donor\<rparr> ''L9'' 0
          [(''title'', String ''Rice''), (''description'', String ''Fresh''),
           (''quantity'', String ''5kg''), (''food_type'', String ''non-veg''),
           (''pickup_address'', String ''1 Main St''), (''expiry_hours'', Number 12),
           (''image_url'', Null)] = Inr st')
   \<and> create_listing \<lparr>listings = [], requests = []\<rparr>
          \<lparr>user_id = ''d1'', user_role = Donor\<rparr> ''L9'' 0
          [(''title'', String ''Rice''), (''description'', String ''Fresh''),
           (''quantity'', String ''5kg''), (''food_type'', String ''non-veg''),
           (''pickup_address'', String ''1 Main St''), (''expiry_hours'', Number 3),
           (''image_url'', Null)] = Inl ValidationError"
proof -
  have s: "submitted createListing_form (example_form_data ''non-veg'' ''12'')"
    by (rule example_form_submitted) simp_all
  have b: "body (createListing_onSubmit Undefined (String ''t'')
              (example_form_data ''non-veg'' ''12''))
       = Some [(''title'', String ''Rice''), (''description'', String ''Fresh''),
           (''quantity'', String ''5kg''), (''food_type'', String ''non-veg''),
           (''pickup_address'', String ''1 Main St''), (''expiry_hours'', Number 12),
           (''image_url'', Null)]"
    by (rule example_form_body [OF parseInt_options(4)])
  have c: "\<exists>st'. create_listing \<lparr>listings = [], requests = []\<rparr>
          \<lparr>user_id = ''d1'', user_role = Donor\<rparr> ''L9'' 0
          [(''title'', String ''Rice''), (''description'', String ''Fresh''),
           (''quantity'', String ''5kg''), (''food_type'', String ''non-veg''),
           (''pickup_address'', String ''1 Main St''), (''expiry_hours'', Number 12),
           (''image_url'', Null)] = Inr st'"
    by (simp add: create_listing_def validate_listing_def expiry_hours_allowed_def
        food_types_def required_fields_def non_empty_string_def field_def)
  have d: "create_listing \<lparr>listings = [], requests = []\<rparr>
          \<lparr>user_id = ''d1'', user_role = Donor\<rparr> ''L9'' 0
          [(''title'', String ''Rice''), (''description'', String ''Fresh''),
           (''quantity'', String ''5kg''), (''food_type'', String ''non-veg''),
           (''pickup_address'', String ''1 Main St''), (''expiry_hours'', Number 3),
           (''image_url'', Null)] = Inl ValidationError"
    by (simp add: create_listing_def validate_listing_def expiry_hours_allowed_def
        food_types_def required_fields_def non_empty_string_def field_def)
  show ?thesis
    using s b c d
      createListing_body_validated [of "\<lparr>listings = [], requests = []\<rparr>"
        "\<lparr>user_id = ''d1'', user_role = Donor\<rparr>" "''L9''" 0
        "[(''title'', String ''Rice''), (''description'', String ''Fresh''),
           (''quantity'', String ''5kg''), (''food_type'', String ''non-veg''),
           (''pickup_address'', String ''1 Main St''), (''expiry_hours'', Number 12),
           (''image_url'', Null)]" _ "example_form_data ''non-veg'' ''12''" Undefined
        "String ''t''"]
    by simp
qed


section \<open>Properties of the statistics\<close>

lemma js_or_count [simp]: "js_or (count P xs) (Number 0) = count P xs"
  by (simp add: js_or_def count_def)

lemma no_dangling:
  "(\<forall>r \<in> set (requests st). requester_id r = c
       \<longrightarrow> find_listing st (request_listing_id r) \<noteq> None)
   \<Longrightarrow> \<not> list_ex (\<lambda>r. requester_id r = c \<and> find_listing st (request_listing_id r) = None)
         (requests st)"
  by (auto simp: list_ex_iff)

lemma donor_cards_show_counters:
  "map snd (DonorDashboard_cards (donor_stats st c now)) = map snd (donor_stats st c now)"
  by (simp add: DonorDashboard_cards_def donor_stats_def field_def)

lemma organization_stats_response:
  assumes "\<forall>r \<in> set (requests st). requester_id r = c
              \<longrightarrow> find_listing st (request_listing_id r) \<noteq> None"
  shows "\<exists>resp. organization_stats st c = Inr resp
         \<and> resp =
            [(''total_requests'',
                Number (int (length [r \<leftarrow> requests st. requester_id r = c]))),
             (''accepted_requests'',
                Number (int (length [r \<leftarrow> requests st. requester_id r = c
                     \<and> request_status r = Accepted \<and> \<not> listing_completed st r]))),
             (''completed_pickups'',
                Number (int (length [r \<leftarrow> requests st. requester_id r = c
                     \<and> listing_completed st r])))]
         \<and> map snd (NGODashboard_cards resp) = map snd resp"
  using no_dangling [OF assms]
  by (simp add: organization_stats_def NGODashboard_cards_def field_def)
     (simp add: count_def js_or_def)

text \<open>
  Claim C7. For a donor the statistics response is exactly the three counters
  \<^verbatim>\<open>total_listings\<close> (the caller's listings), \<^verbatim>\<open>active_listings\<close> (those whose effective
  status is available or requested) and \<^verbatim>\<open>completed_pickups\<close> (those whose status is
  completed); for an organization whose requests all refer to listings that exist it is
  exactly \<^verbatim>\<open>total_requests\<close>, \<^verbatim>\<open>accepted_requests\<close> (accepted, listing not completed) and
  \<^verbatim>\<open>completed_pickups\<close> (listing completed). The cards of each dashboard show these three
  counters, in this order, and depend on no other field of the response.
\<close>

theorem stats_counters:
  "(user_role caller = Donor \<longrightarrow>
      (\<exists>resp. dashboard_stats st caller now = Inr resp
         \<and> resp =
            [(''total_listings'',
                Number (int (length [l \<leftarrow> listings st. owner_id l = user_id caller]))),
             (''active_listings'',
                Number (int (length [l \<leftarrow> listings st. owner_id l = user_id caller
                     \<and> (effective_status l now = Available
                        \<or> effective_status l now = Requested)]))),
             (''completed_pickups'',
                Number (int (length [l \<leftarrow> listings st. owner_id l = user_id caller
                     \<and> status l = Completed])))]
         \<and> map snd (DonorDashboard_cards resp) = map snd resp))
   \<and> (user_role caller = Ngo
       \<and> (\<forall>r \<in> set (requests st). requester_id r = user_id caller
              \<longrightarrow> find_listing st (request_listing_id r) \<noteq> None) \<longrightarrow>
      (\<exists>resp. dashboard_stats st caller now = Inr resp
         \<and> resp =
            [(''total_requests'',
                Number (int (length [r \<leftarrow> requests st. requester_id r = user_id caller]))),
             (''accepted_requests'',
                Number (int (length [r \<leftarrow> requests st. requester_id r = user_id caller
                     \<and> request_status r = Accepted \<and> \<not> listing_completed st r]))),
             (''completed_pickups'',
                Number (int (length [r \<leftarrow> requests st. requester_id r = user_id caller
                     \<and> listing_completed st r])))]
         \<and> map snd (NGODashboard_cards resp) = map snd resp))
   \<and> (field s1 ''total_listings'' = field s2 ''total_listings''
       \<and> field s1 ''active_listings'' = field s2 ''active_listings''
       \<and> field s1 ''completed_pickups'' = field s2 ''completed_pickups''
       \<longrightarrow> DonorDashboard_cards s1 = DonorDashboard_cards s2)
   \<and> (field s1 ''total_requests'' = field s2 ''total_requests''
       \<and> field s1 ''accepted_requests'' = field s2 ''accepted_requests''
       \<and> field s1 ''completed_pickups'' = field s2 ''completed_pickups''
       \<longrightarrow> NGODashboard_cards s1 = NGODashboard_cards s2)"
proof (intro conjI)
  show "user_role caller = Donor \<longrightarrow>
      (\<exists>resp. dashboard_stats st caller now = Inr resp
         \<and> resp =
            [(''total_listings'',
                Number (int (length [l \<leftarrow> listings st. owner_id l = user_id caller]))),
             (''active_listings'',
                Number (int (length [l \<leftarrow> listings st. owner_id l = user_id caller
                     \<and> (effective_status l now = Available
                        \<or> effective_status l now = Requested)]))),
             (''completed_pickups'',
                Number (int (length [l \<leftarrow> listings st. owner_id l = user_id caller
                     \<and> status l = Completed])))]
         \<and> map snd (DonorDashboard_cards resp) = map snd resp)"
    using donor_cards_show_counters [of st "user_id caller" now]
    by (auto simp: dashboard_stats_def donor_stats_def count_def)
next
  show "user_role caller = Ngo
       \<and> (\<forall>r \<in> set (requests st). requester_id r = user_id caller
              \<longrightarrow> find_listing st (request_listing_id r) \<noteq> None) \<longrightarrow>
      (\<exists>resp. dashboard_stats st caller now = Inr resp
         \<and> resp =
            [(''total_requests'',
                Number (int (length [r \<leftarrow> requests st. requester_id r = user_id caller]))),
             (''accepted_requests'',
                Number (int (length [r \<leftarrow> requests st. requester_id r = user_id caller
                     \<and> request_status r = Accepted \<and> \<not> listing_completed st r]))),
             (''completed_pickups'',
                Number (int (length [r \<leftarrow> requests st. requester_id r = user_id caller
                     \<and> listing_completed st r])))]
         \<and> map snd (NGODashboard_cards resp) = map snd resp)"
  proof (rule impI, elim conjE)
    assume r: "user_role caller = Ngo"
      and nd: "\<forall>r \<in> set (requests st). requester_id r = user_id caller
              \<longrightarrow> find_listing st (request_listing_id r) \<noteq> None"
    from r have "dashboard_stats st caller now = organization_stats st (user_id caller)"
      by (simp add: dashboard_stats_def)
    with organization_stats_response [OF nd]
    show "\<exists>resp. dashboard_stats st caller now = Inr resp
         \<and> resp =
            [(''total_requests'',
                Number (int (length [r \<leftarrow> requests st. requester_id r = user_id caller]))),
             (''accepted_requests'',
                Number (int (length [r \<leftarrow> requests st. requester_id r = user_id caller
                     \<and> request_status r = Accepted \<and> \<not> listing_completed st r]))),
             (''completed_pickups'',
                Number (int (length [r \<leftarrow> requests st. requester_id r = user_id caller
                     \<and> listing_completed st r])))]
         \<and> map snd (NGODashboard_cards resp) = map snd resp"
      by simp
  qed
next
  show "field s1 ''total_listings'' = field s2 ''total_listings''
       \<and> field s1 ''active_listings'' = field s2 ''active_listings''
       \<and> field s1 ''completed_pickups'' = field s2 ''completed_pickups''
       \<longrightarrow> DonorDashboard_cards s1 = DonorDashboard_cards s2"
    by (simp add: DonorDashboard_cards_def)
next
  show "field s1 ''total_requests'' = field s2 ''total_requests''
       \<and> field s1 ''accepted_requests'' = field s2 ''accepted_requests''
       \<and> field s1 ''completed_pickups'' = field s2 ''completed_pickups''
       \<longrightarrow> NGODashboard_cards s1 = NGODashboard_cards s2"
    by (simp add: NGODashboard_cards_def)
qed

theorem stats_counters_witness:
  "dashboard_stats example_store \<lparr>user_id = ''d1'', user_role = Donor\<rparr> 3600
     = Inr [(''total_listings'', Number 2), (''active_listings'', Number 1),
            (''completed_pickups'', Number 1)]
   \<and> map snd (DonorDashboard_cards [(''total_listings'', Number 2),
        (''active_listings'', Number 1), (''completed_pickups'', Number 1)])
     = [Number 2, Number 1, Number 1]
   \<and> dashboard_stats example_store \<lparr>user_id = ''n1'', user_role = Ngo\<rparr> 3600
     = Inr [(''total_requests'', Number 2), (''accepted_requests'', Number 1),
            (''completed_pickups'', Number 1)]
   \<and> map snd (NGODashboard_cards [(''total_requests'', Number 2),
        (''accepted_requests'', Number 1), (''completed_pickups'', Number 1)])
     = [Number 2, Number 1, Number 1]"
proof -
  have f1: "find_listing example_store ''L1'' = Some (example_listing\<lparr>status := Requested\<rparr>)"
    by (simp add: find_listing_def example_store_def example_listing_def)
  have f2: "find_listing example_store ''L2''
      = Some (example_listing\<lparr>listing_id := ''L2'', expiry_hours := 2, status := Completed\<rparr>)"
    by (simp add: find_listing_def example_store_def example_listing_def)
  have e1: "effective_status (example_listing\<lparr>status := Requested\<rparr>) 3600 = Requested"
    by (simp add: effective_status_def hours_remaining_def elapsed_hours_def
        example_listing_def)
  have e2: "effective_status
      (example_listing\<lparr>listing_id := ''L2'', expiry_hours := 2, status := Completed\<rparr>) 3600
      = Completed"
    by (simp add: effective_status_def)
  have ow: "owner_id example_listing = ''d1''"
    by (simp add: example_listing_def)
  have d: "dashboard_stats example_store \<lparr>user_id = ''d1'', user_role = Donor\<rparr> 3600
     = Inr [(''total_listings'', Number 2), (''active_listings'', Number 1),
            (''completed_pickups'', Number 1)]"
    by (simp add: dashboard_stats_def donor_stats_def count_def example_store_def e1 e2 ow)
  have rs: "requests example_store =
        [\<lparr>request_id = ''r1'', request_listing_id = ''L1'', requester_id = ''n1'',
          request_message = None, request_created_at = 60, request_status = Accepted\<rparr>,
         \<lparr>request_id = ''r2'', request_listing_id = ''L2'', requester_id = ''n1'',
          request_message = Some ''thanks'', request_created_at = 90,
          request_status = Accepted\<rparr>,
         \<lparr>request_id = ''r3'', request_listing_id = ''L1'', requester_id = ''n2'',
          request_message = None, request_created_at = 120, request_status = Rejected\<rparr>]"
    by (simp add: example_store_def)
  have nd: "\<forall>r \<in> set (requests example_store).
        requester_id r = user_id \<lparr>user_id = ''n1'', user_role = Ngo\<rparr>
          \<longrightarrow> find_listing example_store (request_listing_id r) \<noteq> None"
    by (simp add: rs f1 f2)
  have n: "dashboard_stats example_store \<lparr>user_id = ''n1'', user_role = Ngo\<rparr> 3600
     = Inr [(''total_requests'', Number 2), (''accepted_requests'', Number 1),
            (''completed_pickups'', Number 1)]"
    by (simp add: dashboard_stats_def organization_stats_def listing_completed_def count_def
        rs f1 f2)
  note donor_case = stats_counters [of "\<lparr>user_id = ''d1'', user_role = Donor\<rparr>"
      example_store 3600 "[]" "[]", THEN conjunct1, rule_format]
  have "user_role \<lparr>user_id = ''d1'', user_role = Donor\<rparr> = Donor" by simp
  from donor_case [OF this] obtain resp where
    "dashboard_stats example_store \<lparr>user_id = ''d1'', user_role = Donor\<rparr> 3600 = Inr resp"
    "map snd (DonorDashboard_cards resp) = map snd resp"
    by blast
  with d have dc: "map snd (DonorDashboard_cards [(''total_listings'', Number 2),
        (''active_listings'', Number 1), (''completed_pickups'', Number 1)])
     = [Number 2, Number 1, Number 1]"
    by simp
  note ngo_case = stats_counters [of "\<lparr>user_id = ''n1'', user_role = Ngo\<rparr>"
      example_store 3600 "[]" "[]", THEN conjunct2, THEN conjunct1, rule_format]
  have "user_role \<lparr>user_id = ''n1'', user_role = Ngo\<rparr> = Ngo" by simp
  from ngo_case [OF conjI [OF this nd]] obtain resp' where
    "dashboard_stats example_store \<lparr>user_id = ''n1'', user_role = Ngo\<rparr> 3600 = Inr resp'"
    "map snd (NGODashboard_cards resp') = map snd resp'"
    by blast
  with n have nc: "map snd (NGODashboard_cards [(''total_requests'', Number 2),
        (''accepted_requests'', Number 1), (''completed_pickups'', Number 1)])
     = [Number 2, Number 1, Number 1]"
    by simp
  from d dc n nc show ?thesis by (intro conjI)
qed


end
